theory Spec2Isabelle
  imports Main "HOL-Library.Sublist"
begin

section \<open>Python values, exceptions and outcomes\<close>

text \<open>
  The module \<^verbatim>\<open>inventory_system_cleaned.py\<close> keeps its stock in a Python \<^verbatim>\<open>dict\<close>
  from item names to quantities and offers \<^verbatim>\<open>add_item\<close>, \<^verbatim>\<open>remove_item\<close>,
  \<^verbatim>\<open>get_qty\<close>, \<^verbatim>\<open>check_low_items\<close>, \<^verbatim>\<open>load_data\<close> and \<^verbatim>\<open>save_data\<close>.

  Python is dynamically typed. An argument that the source inspects with
  \<^verbatim>\<open>isinstance\<close> (the \<^verbatim>\<open>item\<close> and \<^verbatim>\<open>qty\<close> of \<^verbatim>\<open>add_item\<close>, the \<^verbatim>\<open>qty\<close> of
  \<^verbatim>\<open>remove_item\<close>) is a \<open>pyval\<close> here. An argument the source uses without a check
  has the type of the ledger's data model: an item name used for a lookup is a string, a
  threshold is an integer, the stock is a dictionary from strings to integers.
  \<open>PyOther\<close> stands for a value of any further class (a float, a list, ...), given by
  its printed form; no operation of the module computes with such a value.
\<close>

datatype pyval = PyNone | PyBool bool | PyInt int | PyStr string | PyOther string

text \<open>
  \<^verbatim>\<open>isinstance(v, int)\<close> holds for \<^verbatim>\<open>int\<close> and for its subclass \<^verbatim>\<open>bool\<close>, where
  \<^verbatim>\<open>True\<close> counts as 1 and \<^verbatim>\<open>False\<close> as 0; Python integers are unbounded.
  \<open>as_int v\<close> is the integer such a value stands for, and \<open>None\<close> for a value of
  another class.
\<close>

fun as_int :: "pyval \<Rightarrow> int option" where
  "as_int (PyInt i) = Some i"
| "as_int (PyBool b) = Some (if b then 1 else 0)"
| "as_int v = None"

definition isinstance_int :: "pyval \<Rightarrow> bool" where
  "isinstance_int v = (as_int v \<noteq> None)"

fun isinstance_str :: "pyval \<Rightarrow> bool" where
  "isinstance_str (PyStr s) = True"
| "isinstance_str v = False"

text \<open>
  What a \<^verbatim>\<open>ValueError\<close> says: the three complaints of \<^verbatim>\<open>add_item\<close>, and the two the
  interpreter raises on its own in this module, when an integer of too many digits is
  converted to or from decimal text, and when a path contains a null character.
\<close>

datatype complaint =
    Item_name_must_be_nonempty_string pyval
  | Quantity_must_be_integer pyval
  | Quantity_cannot_be_negative
  | Exceeds_int_str_digits
  | Embedded_null_byte

datatype exn =
    ValueError complaint
  | KeyError string
  | FileNotFoundError
  | OSError
  | JSONDecodeError
  | UnicodeDecodeError
  | RecursionError

text \<open>
  The classes named in the module's \<^verbatim>\<open>except\<close> clauses, and which exception is an
  instance of which: \<^verbatim>\<open>FileNotFoundError\<close> is a subclass of \<^verbatim>\<open>OSError\<close> (of which
  \<^verbatim>\<open>IOError\<close> is another name), \<^verbatim>\<open>JSONDecodeError\<close> and \<^verbatim>\<open>UnicodeDecodeError\<close>
  are subclasses of \<^verbatim>\<open>ValueError\<close>, \<^verbatim>\<open>RecursionError\<close> is a \<^verbatim>\<open>RuntimeError\<close>. The
  constructor \<open>OSError\<close> stands for every operating-system error other than a missing
  file (no permission, a directory, ...).
\<close>

datatype exn_class = Cls_KeyError | Cls_FileNotFoundError | Cls_JSONDecodeError | Cls_IOError

fun isinstance_exn :: "exn \<Rightarrow> exn_class \<Rightarrow> bool" where
  "isinstance_exn (KeyError k) c = (c = Cls_KeyError)"
| "isinstance_exn FileNotFoundError c = (c = Cls_FileNotFoundError \<or> c = Cls_IOError)"
| "isinstance_exn OSError c = (c = Cls_IOError)"
| "isinstance_exn JSONDecodeError c = (c = Cls_JSONDecodeError)"
| "isinstance_exn UnicodeDecodeError c = False"
| "isinstance_exn RecursionError c = False"
| "isinstance_exn (ValueError m) c = False"

text \<open>A call either returns a value or raises.\<close>

datatype 'a outcome = Returned 'a | Raised exn

section \<open>Integers as decimal text\<close>

text \<open>
  The interpreter refuses to convert an integer of more than 4300 decimal digits to text
  (its default limit): \<^verbatim>\<open>str\<close>, \<^verbatim>\<open>repr\<close> and formatting in an f-string raise
  \<^verbatim>\<open>ValueError\<close> for it. Such an integer is one whose absolute value is at least
  \<open>10 ^ 4300\<close>.
\<close>

definition int_max_str_digits :: nat where
  "int_max_str_digits = 4300"

definition int_str_bound :: int where
  "int_str_bound = 10 ^ int_max_str_digits"

definition digit_char :: "nat \<Rightarrow> char" where
  "digit_char n = char_of (48 + n)"

fun show_nat :: "nat \<Rightarrow> string" where
  "show_nat n = (if n < 10 then [digit_char n] else show_nat (n div 10) @ [digit_char (n mod 10)])"

declare show_nat.simps [simp del]

definition show_int :: "int \<Rightarrow> string" where
  "show_int i = (if i < 0 then CHR 0x2D # show_nat (nat (- i)) else show_nat (nat i))"

definition int_to_str :: "int \<Rightarrow> string outcome" where
  "int_to_str i =
     (if int_str_bound \<le> \<bar>i\<bar> then Raised (ValueError Exceeds_int_str_digits)
      else Returned (show_int i))"

text \<open>A value in an f-string: \<^verbatim>\<open>f"{v}"\<close>.\<close>

fun py_format :: "pyval \<Rightarrow> string outcome" where
  "py_format PyNone = Returned ''None''"
| "py_format (PyBool b) = Returned (if b then ''True'' else ''False'')"
| "py_format (PyInt i) = int_to_str i"
| "py_format (PyStr s) = Returned s"
| "py_format (PyOther r) = Returned r"

text \<open>
  \<^verbatim>\<open>raise ValueError(f"... {v}")\<close>: the message is built first, so when the value cannot
  be formatted it is the formatting's exception that is raised.
\<close>

definition value_error_about :: "pyval \<Rightarrow> complaint \<Rightarrow> exn" where
  "value_error_about v c = (case py_format v of Raised e \<Rightarrow> e | Returned txt \<Rightarrow> ValueError c)"

section \<open>The stock dictionary\<close>

text \<open>
  A Python \<^verbatim>\<open>dict\<close> iterates in insertion order, so the stock is an association list in
  that order. Assigning to a present key replaces its value where it stands, assigning
  to an absent key appends the entry, \<^verbatim>\<open>del\<close> takes the entry out. A list that stands
  for a dictionary has no key twice (\<open>is_dict\<close>).
\<close>

type_synonym ledger = "(string \<times> int) list"

definition is_dict :: "ledger \<Rightarrow> bool" where
  "is_dict d = distinct (map fst d)"

definition has_key :: "ledger \<Rightarrow> string \<Rightarrow> bool" where
  "has_key d k = (k \<in> set (map fst d))"

text \<open>\<^verbatim>\<open>d[k]\<close>: the value, or \<^verbatim>\<open>KeyError\<close>.\<close>

definition dict_getitem :: "ledger \<Rightarrow> string \<Rightarrow> int outcome" where
  "dict_getitem d k = (case map_of d k of None \<Rightarrow> Raised (KeyError k) | Some v \<Rightarrow> Returned v)"

text \<open>\<^verbatim>\<open>d.get(k, default)\<close>.\<close>

definition dict_get :: "ledger \<Rightarrow> string \<Rightarrow> int \<Rightarrow> int" where
  "dict_get d k dflt = (case map_of d k of None \<Rightarrow> dflt | Some v \<Rightarrow> v)"

text \<open>\<^verbatim>\<open>d[k] = v\<close>.\<close>

primrec dict_setitem :: "ledger \<Rightarrow> string \<Rightarrow> int \<Rightarrow> ledger" where
  "dict_setitem [] k v = [(k, v)]"
| "dict_setitem (e # d) k v = (if fst e = k then (k, v) # d else e # dict_setitem d k v)"

text \<open>\<^verbatim>\<open>del d[k]\<close>: \<^verbatim>\<open>KeyError\<close> when the key is absent.\<close>

definition dict_delitem :: "ledger \<Rightarrow> string \<Rightarrow> unit outcome \<times> ledger" where
  "dict_delitem d k =
     (if has_key d k then (Returned (), filter (\<lambda>e. fst e \<noteq> k) d)
      else (Raised (KeyError k), d))"

section \<open>The operations on the stock\<close>

text \<open>
  Every operation takes the dictionary and returns its outcome together with the
  dictionary as the call leaves it, since Python mutates the caller's dictionary in
  place. The log lines the module emits are output only: no operation reads them, and
  the log itself is left out. Building a log line can raise, though, and that is part
  of the outcome.

  \<^verbatim>\<open>add_item\<close>: the checks of lines 23 to 28 in their order, then line 30, then the
  log line of line 32, which formats \<^verbatim>\<open>qty\<close> after the entry has been stored (the
  time and the item, a string, can always be formatted). The test \<^verbatim>\<open>not item\<close> is
  reached for a string only, where it asks whether it is empty.
  A caller that leaves \<^verbatim>\<open>item\<close> or \<^verbatim>\<open>qty\<close> out passes the defaults
  \<open>PyStr ''default''\<close> and \<open>PyInt 0\<close>.
\<close>

definition add_item :: "ledger \<Rightarrow> pyval \<Rightarrow> pyval \<Rightarrow> unit outcome \<times> ledger" where
  "add_item stock_data item qty =
     (case item of
        PyStr name \<Rightarrow>
          if name = [] then
            (Raised (value_error_about item (Item_name_must_be_nonempty_string item)), stock_data)
          else
            (case as_int qty of
               None \<Rightarrow>
                 (Raised (value_error_about qty (Quantity_must_be_integer qty)), stock_data)
             | Some q \<Rightarrow>
                 if q < 0 then (Raised (ValueError Quantity_cannot_be_negative), stock_data)
                 else
                   (let stored = dict_setitem stock_data name (dict_get stock_data name 0 + q)
                    in case py_format qty of
                         Raised e \<Rightarrow> (Raised e, stored)
                       | Returned log_message \<Rightarrow> (Returned (), stored)))
      | _ \<Rightarrow>
          (Raised (value_error_about item (Item_name_must_be_nonempty_string item)), stock_data))"

text \<open>
  The body of the \<^verbatim>\<open>try\<close> of \<^verbatim>\<open>remove_item\<close> (lines 46 to 52);
  \<^verbatim>\<open>stock_data[item] -= qty\<close> reads the entry and assigns it.
\<close>

definition remove_item_try :: "ledger \<Rightarrow> string \<Rightarrow> int \<Rightarrow> unit outcome \<times> ledger" where
  "remove_item_try stock_data item q =
     (case dict_getitem stock_data item of
        Raised e \<Rightarrow> (Raised e, stock_data)
      | Returned current_qty \<Rightarrow>
          if current_qty - q \<le> 0 then dict_delitem stock_data item
          else
            (case dict_getitem stock_data item of
               Raised e \<Rightarrow> (Raised e, stock_data)
             | Returned v \<Rightarrow> (Returned (), dict_setitem stock_data item (v - q))))"

text \<open>
  \<^verbatim>\<open>remove_item\<close>: the early return of lines 41 to 43 (\<^verbatim>\<open>qty < 0\<close> is reached for an
  instance of \<^verbatim>\<open>int\<close> only), then the \<^verbatim>\<open>try\<close> with its handler for \<^verbatim>\<open>KeyError\<close>.
\<close>

definition remove_item :: "ledger \<Rightarrow> string \<Rightarrow> pyval \<Rightarrow> unit outcome \<times> ledger" where
  "remove_item stock_data item qty =
     (case as_int qty of
        None \<Rightarrow> (Returned (), stock_data)
      | Some q \<Rightarrow>
          if q < 0 then (Returned (), stock_data)
          else
            (case remove_item_try stock_data item q of
               (Raised e, d) \<Rightarrow>
                 if isinstance_exn e Cls_KeyError then (Returned (), d) else (Raised e, d)
             | (Returned u, d) \<Rightarrow> (Returned u, d)))"

text \<open>\<^verbatim>\<open>get_qty\<close>: line 61.\<close>

definition get_qty :: "ledger \<Rightarrow> string \<Rightarrow> int outcome \<times> ledger" where
  "get_qty stock_data item = (Returned (dict_get stock_data item 0), stock_data)"

text \<open>
  \<^verbatim>\<open>check_low_items\<close>: the comprehension of line 110 over the entries in their order.
  The optional argument is \<open>None\<close> when the caller leaves the threshold out.
\<close>

definition check_low_items :: "ledger \<Rightarrow> int option \<Rightarrow> string list outcome \<times> ledger" where
  "check_low_items stock_data threshold_arg =
     (let threshold = (case threshold_arg of None \<Rightarrow> 5 | Some t \<Rightarrow> t)
      in (Returned [item. (item, qty) \<leftarrow> stock_data, qty < threshold], stock_data))"

text \<open>
  The data invariant of the ledger: every stored quantity is strictly positive; and the
  weaker one: no stored quantity is negative.
\<close>

definition positive_stock :: "ledger \<Rightarrow> bool" where
  "positive_stock d = list_all (\<lambda>e. 0 < snd e) d"

definition nonnegative_stock :: "ledger \<Rightarrow> bool" where
  "nonnegative_stock d = list_all (\<lambda>e. 0 \<le> snd e) d"


section \<open>Files and the JSON library\<close>

text \<open>
  \<^verbatim>\<open>load_data\<close> and \<^verbatim>\<open>save_data\<close> open a file as UTF-8 text and hand it to
  \<^verbatim>\<open>json.load\<close> and \<^verbatim>\<open>json.dump\<close>. A file holds either the UTF-8 encoding of a
  text or bytes that are no UTF-8 at all (\<open>Garbled\<close>). The file system says for every
  path what the file there holds (\<open>None\<close>: there is no file), and whether the path can
  be opened for reading and for writing (a directory, or missing permissions, make it
  fail with an \<^verbatim>\<open>OSError\<close>).
\<close>

datatype content = Text string | Garbled

record filesystem =
  contents :: "string \<Rightarrow> content option"
  readable :: "string \<Rightarrow> bool"
  writable :: "string \<Rightarrow> bool"

text \<open>\<^verbatim>\<open>open(file_path, "r", encoding="utf-8")\<close>.\<close>

definition open_read :: "filesystem \<Rightarrow> string \<Rightarrow> content outcome" where
  "open_read fs file_path =
     (case contents fs file_path of
        None \<Rightarrow> Raised FileNotFoundError
      | Some c \<Rightarrow> if readable fs file_path then Returned c else Raised OSError)"

text \<open>\<^verbatim>\<open>open(file_path, "w", encoding="utf-8")\<close> creates the file or empties it.\<close>

definition open_write :: "filesystem \<Rightarrow> string \<Rightarrow> filesystem outcome" where
  "open_write fs file_path =
     (if writable fs file_path
      then Returned (fs\<lparr>contents := (contents fs)(file_path \<mapsto> Text [])\<rparr>)
      else Raised OSError)"

definition file_write :: "filesystem \<Rightarrow> string \<Rightarrow> string \<Rightarrow> filesystem" where
  "file_write fs file_path t = fs\<lparr>contents := (contents fs)(file_path \<mapsto> Text t)\<rparr>"

text \<open>
  What \<^verbatim>\<open>json.load\<close> returns: the stock, when the document is an object whose values
  are all integers, or some other Python value (a list, a number, an object with other
  values, ...), given by its text.
\<close>

datatype loaded = Stock ledger | Other_value string

text \<open>
  The encoder and the decoder of the JSON library are parameters of the model:
  \<open>json_dumps\<close> is the text \<^verbatim>\<open>json.dump(stock_data, file, indent=4)\<close> writes for a
  dictionary from strings to integers, \<open>json_loads\<close> is the value of a text, or \<open>None\<close>
  where the library raises \<^verbatim>\<open>JSONDecodeError\<close>. \<^verbatim>\<open>json.load\<close> first reads the whole
  file, which raises \<^verbatim>\<open>UnicodeDecodeError\<close> on bytes that are no UTF-8.
\<close>

definition json_load :: "(string \<Rightarrow> loaded option) \<Rightarrow> content \<Rightarrow> loaded outcome" where
  "json_load json_loads c =
     (case c of
        Garbled \<Rightarrow> Raised UnicodeDecodeError
      | Text t \<Rightarrow>
          (case json_loads t of None \<Rightarrow> Raised JSONDecodeError | Some v \<Rightarrow> Returned v))"

text \<open>The path argument is optional, with the default of both functions.\<close>

definition path_of :: "string option \<Rightarrow> string" where
  "path_of path_arg = (case path_arg of None \<Rightarrow> ''inventory.json'' | Some p \<Rightarrow> p)"

text \<open>\<^verbatim>\<open>load_data\<close>: the body of the \<^verbatim>\<open>try\<close> (lines 69 and 70), then the three handlers in
  their order (lines 71 to 79); an exception none of them matches goes on to the caller.\<close>

definition load_data_try :: "(string \<Rightarrow> loaded option) \<Rightarrow> filesystem \<Rightarrow> string \<Rightarrow> loaded outcome" where
  "load_data_try json_loads fs file_path =
     (case open_read fs file_path of
        Raised e \<Rightarrow> Raised e
      | Returned c \<Rightarrow> json_load json_loads c)"

definition load_data :: "(string \<Rightarrow> loaded option) \<Rightarrow> filesystem \<Rightarrow> string option \<Rightarrow> loaded outcome" where
  "load_data json_loads fs path_arg =
     (case load_data_try json_loads fs (path_of path_arg) of
        Raised e \<Rightarrow>
          if isinstance_exn e Cls_FileNotFoundError then Returned (Stock [])
          else if isinstance_exn e Cls_JSONDecodeError then Returned (Stock [])
          else if isinstance_exn e Cls_IOError then Returned (Stock [])
          else Raised e
      | Returned v \<Rightarrow> Returned v)"

text \<open>\<^verbatim>\<open>save_data\<close>: the body of the \<^verbatim>\<open>try\<close> (lines 87 and 88), then the handler for
  \<^verbatim>\<open>IOError\<close>.\<close>

definition save_data_try :: "(ledger \<Rightarrow> string) \<Rightarrow> ledger \<Rightarrow> filesystem \<Rightarrow> string \<Rightarrow> unit outcome \<times> filesystem" where
  "save_data_try json_dumps stock_data fs file_path =
     (case open_write fs file_path of
        Raised e \<Rightarrow> (Raised e, fs)
      | Returned fs' \<Rightarrow> (Returned (), file_write fs' file_path (json_dumps stock_data)))"

definition save_data :: "(ledger \<Rightarrow> string) \<Rightarrow> ledger \<Rightarrow> filesystem \<Rightarrow> string option \<Rightarrow> unit outcome \<times> filesystem" where
  "save_data json_dumps stock_data fs path_arg =
     (case save_data_try json_dumps stock_data fs (path_of path_arg) of
        (Raised e, fs') \<Rightarrow>
          if isinstance_exn e Cls_IOError then (Returned (), fs') else (Raised e, fs')
      | (Returned u, fs') \<Rightarrow> (Returned u, fs'))"


section \<open>Facts about printing integers\<close>

lemma int_max_str_digits_ge: "9 \<le> int_max_str_digits"
  by (simp add: int_max_str_digits_def)

lemma int_str_bound_large: "1000000000 \<le> int_str_bound"
proof -
  have "(10::int) ^ 9 \<le> 10 ^ int_max_str_digits"
    by (rule power_increasing [OF int_max_str_digits_ge]) simp
  then show ?thesis by (simp add: int_str_bound_def)
qed

lemma int_str_bound_pos: "0 < int_str_bound"
  using int_str_bound_large by linarith

lemma int_to_str_small [simp]:
  "\<bar>i\<bar> < 1000000000 \<Longrightarrow> int_to_str i = Returned (show_int i)"
  using int_str_bound_large by (simp add: int_to_str_def)

lemma int_to_str_huge:
  "int_str_bound \<le> \<bar>i\<bar> \<Longrightarrow> int_to_str i = Raised (ValueError Exceeds_int_str_digits)"
  by (simp add: int_to_str_def)

lemma py_format_quantity:
  assumes "as_int qty = Some q" and "0 \<le> q"
  shows "q < int_str_bound \<Longrightarrow> \<exists>txt. py_format qty = Returned txt"
    and "int_str_bound \<le> q \<Longrightarrow> py_format qty = Raised (ValueError Exceeds_int_str_digits)"
  using assms int_str_bound_large
  by (cases qty; auto simp: int_to_str_def split: if_splits)+

section \<open>Facts about the dictionary operations\<close>

lemma map_of_dict_setitem: "map_of (dict_setitem d k v) = (map_of d)(k \<mapsto> v)"
  by (induction d) auto

lemma keys_dict_setitem:
  "map fst (dict_setitem d k v) = (if has_key d k then map fst d else map fst d @ [k])"
  by (induction d) (auto simp: has_key_def)

lemma dict_setitem_absent: "\<not> has_key d k \<Longrightarrow> dict_setitem d k v = d @ [(k, v)]"
  by (induction d) (auto simp: has_key_def)

lemma map_of_drop_key:
  "map_of (filter (\<lambda>e. fst e \<noteq> k) d) k' = (if k' = k then None else map_of d k')"
  by (induction d) auto

lemma has_key_map_of: "has_key d k \<longleftrightarrow> map_of d k \<noteq> None"
  by (simp add: has_key_def map_of_eq_None_iff)

lemma list_all_dict_setitem:
  "list_all P d \<Longrightarrow> P (k, v) \<Longrightarrow> list_all P (dict_setitem d k v)"
  by (induction d) auto

lemma map_of_list_all: "list_all P d \<Longrightarrow> map_of d k = Some v \<Longrightarrow> P (k, v)"
  by (induction d) (auto split: if_splits)

lemma list_all_mono': "list_all P d \<Longrightarrow> (\<And>e. P e \<Longrightarrow> Q e) \<Longrightarrow> list_all Q d"
  by (induction d) auto

lemma is_dict_setitem: "is_dict d \<Longrightarrow> is_dict (dict_setitem d k v)"
  by (simp add: is_dict_def keys_dict_setitem has_key_def)

lemma is_dict_drop_key: "is_dict d \<Longrightarrow> is_dict (filter (\<lambda>e. fst e \<noteq> k) d)"
  by (simp add: is_dict_def distinct_map_filter)

lemma positive_drop_key: "positive_stock d \<Longrightarrow> positive_stock (filter (\<lambda>e. fst e \<noteq> k) d)"
  by (induction d) (auto simp: positive_stock_def)

text \<open>
  With the handler for \<^verbatim>\<open>KeyError\<close> resolved, \<^verbatim>\<open>remove_item\<close> has four ways through:
  it skips a bad quantity, it skips an absent item, it deletes the entry, or it lowers
  the quantity.
\<close>

lemma remove_item_try_cases:
  "remove_item_try d item q =
     (case map_of d item of
        None \<Rightarrow> (Raised (KeyError item), d)
      | Some c \<Rightarrow> if c - q \<le> 0 then (Returned (), filter (\<lambda>e. fst e \<noteq> item) d)
                  else (Returned (), dict_setitem d item (c - q)))"
  by (auto simp: remove_item_try_def dict_getitem_def dict_delitem_def has_key_map_of
      split: option.splits)

lemma remove_item_cases:
  "remove_item d item qty =
     (case as_int qty of
        None \<Rightarrow> (Returned (), d)
      | Some q \<Rightarrow>
          if q < 0 then (Returned (), d)
          else (case map_of d item of
                  None \<Rightarrow> (Returned (), d)
                | Some c \<Rightarrow> if c - q \<le> 0 then (Returned (), filter (\<lambda>e. fst e \<noteq> item) d)
                            else (Returned (), dict_setitem d item (c - q))))"
  by (auto simp: remove_item_def remove_item_try_cases split: option.splits)

lemma add_item_valid:
  "name \<noteq> [] \<Longrightarrow> as_int qty = Some q \<Longrightarrow> 0 \<le> q \<Longrightarrow>
     add_item s (PyStr name) qty =
       (if q < int_str_bound then Returned () else Raised (ValueError Exceeds_int_str_digits),
        dict_setitem s name (dict_get s name 0 + q))"
proof (cases "q < int_str_bound")
  case True
  assume "name \<noteq> []" "as_int qty = Some q" "0 \<le> q"
  then show ?thesis
    using True py_format_quantity(1) [of qty q] by (auto simp: add_item_def)
next
  case False
  assume "name \<noteq> []" "as_int qty = Some q" "0 \<le> q"
  then show ?thesis
    using False py_format_quantity(2) [of qty q] by (auto simp: add_item_def)
qed

lemma add_item_snd_cases:
  "snd (add_item s item qty) = s \<or>
   (\<exists>name q. item = PyStr name \<and> as_int qty = Some q \<and> 0 \<le> q \<and>
      snd (add_item s item qty) = dict_setitem s name (dict_get s name 0 + q))"
  by (cases item; cases "as_int qty") (auto simp: add_item_def Let_def split: outcome.splits)

text \<open>Both mutations keep the list a dictionary: no key comes to stand twice.\<close>

lemma operations_keep_dict:
  assumes "is_dict s"
  shows "is_dict (snd (add_item s item qty))" and "is_dict (snd (remove_item s name qty))"
proof -
  show "is_dict (snd (add_item s item qty))"
    using add_item_snd_cases [of s item qty] assms by (auto simp: is_dict_setitem)
  show "is_dict (snd (remove_item s name qty))"
    using assms
    by (auto simp: remove_item_cases is_dict_setitem is_dict_drop_key split: option.splits)
qed

text \<open>
  The comprehension of \<^verbatim>\<open>check_low_items\<close> keeps the names of the entries below the
  threshold; in a dictionary these are the keys whose stored quantity is below it.
\<close>

lemma low_items_filter:
  "[item. (item, qty) \<leftarrow> d, qty < t] = map fst (filter (\<lambda>e. snd e < t) d)"
  by (induction d) auto

lemma low_items_keys:
  "is_dict d \<Longrightarrow>
     map fst (filter (\<lambda>e. snd e < t) d)
       = filter (\<lambda>k. case map_of d k of None \<Rightarrow> False | Some q \<Rightarrow> q < t) (map fst d)"
proof (induction d)
  case Nil
  then show ?case by simp
next
  case (Cons e d)
  then have d: "is_dict d" and fresh: "fst e \<notin> fst ` set d"
    by (auto simp: is_dict_def)
  have "filter (\<lambda>k. case map_of (e # d) k of None \<Rightarrow> False | Some q \<Rightarrow> q < t) (map fst d)
      = filter (\<lambda>k. case map_of d k of None \<Rightarrow> False | Some q \<Rightarrow> q < t) (map fst d)"
    using fresh by (intro filter_cong) (auto simp: rev_image_eqI)
  then show ?case using Cons.IH [OF d] by (cases e) auto
qed

section \<open>The ledger in memory\<close>

subsection \<open>Stored quantities\<close>

text \<open>
  C1, as the code has it. The source stores \<^verbatim>\<open>stock_data.get(item, 0) + qty\<close> for every
  \<^verbatim>\<open>qty\<close> that is not negative, zero included. From a stock whose quantities are all
  strictly positive: \<^verbatim>\<open>remove_item\<close> with any arguments leaves all quantities strictly
  positive; so does \<^verbatim>\<open>add_item\<close> with any arguments unless the quantity added is
  zero; after \<^verbatim>\<open>add_item\<close> no quantity is negative, and the only entry that can hold
  zero is the added item itself, when zero was added and the item was absent before.
\<close>

theorem stock_stays_positive:
  assumes "positive_stock s"
  shows "positive_stock (snd (remove_item s item qty))
    \<and> (as_int qty' \<noteq> Some 0 \<longrightarrow> positive_stock (snd (add_item s item' qty')))
    \<and> nonnegative_stock (snd (add_item s item' qty'))
    \<and> list_all (\<lambda>e. 0 < snd e \<or> (PyStr (fst e) = item' \<and> as_int qty' = Some 0 \<and> snd e = 0
                      \<and> \<not> has_key s (fst e)))
         (snd (add_item s item' qty'))"
proof -
  have pos: "list_all (\<lambda>e. 0 < snd e) s"
    using assms by (simp add: positive_stock_def)
  have rem: "positive_stock (snd (remove_item s item qty))"
  proof (cases "as_int qty")
    case None
    then show ?thesis using assms by (simp add: remove_item_cases)
  next
    case (Some q)
    show ?thesis
    proof (cases "map_of s item")
      case None
      then show ?thesis using assms Some by (simp add: remove_item_cases)
    next
      case (Some c)
      have "0 < c - q \<Longrightarrow> positive_stock (dict_setitem s item (c - q))"
        unfolding positive_stock_def using pos by (intro list_all_dict_setitem) auto
      then show ?thesis
        using assms Some \<open>as_int qty = Some q\<close>
        by (auto simp: remove_item_cases positive_drop_key)
    qed
  qed
  let ?P = "\<lambda>e. 0 < snd e \<or> (PyStr (fst e) = item' \<and> as_int qty' = Some 0 \<and> snd e = 0
                      \<and> \<not> has_key s (fst e))"
  have fine: "list_all ?P (snd (add_item s item' qty'))"
    using add_item_snd_cases [of s item' qty']
  proof
    assume "snd (add_item s item' qty') = s"
    then show ?thesis using list_all_mono' [OF pos, of ?P] by simp
  next
    assume "\<exists>name q. item' = PyStr name \<and> as_int qty' = Some q \<and> 0 \<le> q \<and>
      snd (add_item s item' qty') = dict_setitem s name (dict_get s name 0 + q)"
    then obtain name q where h: "item' = PyStr name" "as_int qty' = Some q" "0 \<le> q"
      "snd (add_item s item' qty') = dict_setitem s name (dict_get s name 0 + q)"
      by blast
    have old: "list_all ?P s" using list_all_mono' [OF pos, of ?P] by simp
    have new: "?P (name, dict_get s name 0 + q)"
    proof (cases "map_of s name")
      case None
      then show ?thesis using h by (auto simp: dict_get_def has_key_map_of)
    next
      case (Some c)
      then have "0 < c" using map_of_list_all [OF pos Some] by simp
      then show ?thesis using h Some by (simp add: dict_get_def)
    qed
    show ?thesis unfolding h(4) by (rule list_all_dict_setitem [OF old new])
  qed
  have a1: "as_int qty' \<noteq> Some 0 \<longrightarrow> positive_stock (snd (add_item s item' qty'))"
  proof
    assume "as_int qty' \<noteq> Some 0"
    then show "positive_stock (snd (add_item s item' qty'))"
      unfolding positive_stock_def by (intro list_all_mono' [OF fine]) auto
  qed
  have a2: "nonnegative_stock (snd (add_item s item' qty'))"
    unfolding nonnegative_stock_def by (rule list_all_mono' [OF fine]) auto
  show ?thesis using rem a1 a2 fine by blast
qed

text \<open>
  An instance: from apple 10, banana 20, removing 25 bananas, adding 4 pears and adding
  0 pears.
\<close>

theorem stock_stays_positive_witness:
  "positive_stock [(''apple'', 10), (''banana'', 20)]
   \<and> positive_stock (snd (remove_item [(''apple'', 10), (''banana'', 20)] ''banana'' (PyInt 25)))
   \<and> positive_stock (snd (add_item [(''apple'', 10), (''banana'', 20)] (PyStr ''pear'') (PyInt 4)))
   \<and> nonnegative_stock (snd (add_item [(''apple'', 10), (''banana'', 20)] (PyStr ''pear'') (PyInt 0)))"
proof -
  have h: "positive_stock [(''apple'', 10), (''banana'', 20)]"
    by (simp add: positive_stock_def)
  show ?thesis
    using h stock_stays_positive [OF h, of "''banana''" "PyInt 25" "PyInt 4" "PyStr ''pear''"]
      stock_stays_positive [OF h, of "''banana''" "PyInt 25" "PyInt 0" "PyStr ''pear''"]
    by simp
qed

text \<open>
  C1 as stated fails: adding 0 of an absent item is a completed mutation with valid
  arguments, and it stores the item with quantity zero.
\<close>

theorem add_zero_stores_zero:
  "positive_stock [] \<and> add_item [] (PyStr ''apple'') (PyInt 0) = (Returned (), [(''apple'', 0)])
   \<and> \<not> positive_stock (snd (add_item [] (PyStr ''apple'') (PyInt 0)))"
  by (simp add: add_item_def positive_stock_def dict_get_def)

subsection \<open>Validation in add_item\<close>

text \<open>
  What the validation does when the values at hand can be printed (no integer of more
  than 4300 digits among them): \<^verbatim>\<open>add_item\<close> raises exactly when the item is not a
  string or is the empty string, or the quantity is not an instance of \<^verbatim>\<open>int\<close> (of
  which \<^verbatim>\<open>bool\<close> is a subclass), or the quantity is negative; the first check that
  fails names the complaint; and when it raises, the dictionary is as it was.
\<close>

lemma add_item_validation:
  assumes "\<forall>i. item = PyInt i \<longrightarrow> \<bar>i\<bar> < int_str_bound"
    and "\<forall>q. as_int qty = Some q \<longrightarrow> q < int_str_bound"
  shows "((\<exists>e. fst (add_item s item qty) = Raised e) \<longleftrightarrow>
      (\<not> isinstance_str item \<or> item = PyStr [] \<or> \<not> isinstance_int qty
        \<or> (\<exists>q. as_int qty = Some q \<and> q < 0)))
   \<and> (\<not> isinstance_str item \<or> item = PyStr [] \<longrightarrow>
        fst (add_item s item qty) = Raised (ValueError (Item_name_must_be_nonempty_string item)))
   \<and> (isinstance_str item \<and> item \<noteq> PyStr [] \<and> \<not> isinstance_int qty \<longrightarrow>
        fst (add_item s item qty) = Raised (ValueError (Quantity_must_be_integer qty)))
   \<and> (isinstance_str item \<and> item \<noteq> PyStr [] \<and> (\<exists>q. as_int qty = Some q \<and> q < 0) \<longrightarrow>
        fst (add_item s item qty) = Raised (ValueError Quantity_cannot_be_negative))
   \<and> ((\<exists>e. fst (add_item s item qty) = Raised e) \<longrightarrow> snd (add_item s item qty) = s)"
proof (cases item)
  case (PyStr name)
  show ?thesis
  proof (cases "as_int qty")
    case None
    then have "\<exists>txt. py_format qty = Returned txt"
      by (cases qty) auto
    then show ?thesis
      using PyStr None
      by (auto simp: add_item_def isinstance_int_def value_error_about_def)
  next
    case (Some q)
    show ?thesis
    proof (cases "q < 0")
      case True
      then show ?thesis
        using PyStr Some
        by (auto simp: add_item_def isinstance_int_def value_error_about_def)
    next
      case False
      then have "q < int_str_bound" "0 \<le> q"
        using assms(2) Some by auto
      then show ?thesis
        using PyStr Some False add_item_valid [of name qty q s]
        by (cases "name = []")
          (auto simp: add_item_def isinstance_int_def value_error_about_def)
    qed
  qed
next
  case (PyInt i)
  then have "int_to_str i = Returned (show_int i)"
    using assms(1) by (simp add: int_to_str_def)
  then show ?thesis
    using PyInt by (simp add: add_item_def value_error_about_def)
qed (simp_all add: add_item_def value_error_about_def)

text \<open>
  C2 fails on the code at a valid quantity of more than 4300 digits. Line 30 stores the
  new quantity, then line 32 formats \<^verbatim>\<open>qty\<close> for the log line and the interpreter
  raises \<^verbatim>\<open>ValueError\<close>: \<^verbatim>\<open>add_item\<close> raises although the item is a non-empty string
  and the quantity is an integer that is not negative, and the dictionary has been
  changed when it raises.
\<close>

theorem add_item_raises_after_storing:
  assumes "name \<noteq> []" and "int_str_bound \<le> q"
  shows "isinstance_str (PyStr name) \<and> isinstance_int (PyInt q) \<and> 0 \<le> q
     \<and> add_item s (PyStr name) (PyInt q)
         = (Raised (ValueError Exceeds_int_str_digits),
            dict_setitem s name (dict_get s name 0 + q))
     \<and> snd (add_item s (PyStr name) (PyInt q)) \<noteq> s"
proof -
  have q: "0 \<le> q" "\<not> q < int_str_bound"
    using assms(2) int_str_bound_pos by auto
  have run: "add_item s (PyStr name) (PyInt q)
      = (Raised (ValueError Exceeds_int_str_digits), dict_setitem s name (dict_get s name 0 + q))"
    using add_item_valid [of name "PyInt q" q s] assms(1) q by simp
  have "map_of (dict_setitem s name (dict_get s name 0 + q)) name \<noteq> map_of s name"
    using q int_str_bound_pos
    by (auto simp: map_of_dict_setitem dict_get_def split: option.splits)
  then have "dict_setitem s name (dict_get s name 0 + q) \<noteq> s"
    by auto
  then show ?thesis
    using run q by (simp add: isinstance_int_def)
qed

text \<open>An instance: \<open>10 ^ 4300\<close> apples added to an empty stock.\<close>

theorem add_item_raises_after_storing_witness:
  "add_item [] (PyStr ''apple'') (PyInt int_str_bound)
     = (Raised (ValueError Exceeds_int_str_digits), [(''apple'', int_str_bound)])"
  using add_item_raises_after_storing [of "''apple''" int_str_bound "[]"]
  by (simp add: dict_get_def)

subsection \<open>Adding\<close>

text \<open>
  C3 on the code. For every stock, every non-empty item name and every integer quantity
  that is not negative, the dictionary \<^verbatim>\<open>add_item\<close> leaves holds the item with what
  \<^verbatim>\<open>get_qty\<close> gave before plus the quantity, the key created if it was absent. The call
  returns when the quantity has at most 4300 digits. For a larger quantity it raises
  \<^verbatim>\<open>ValueError\<close> at the log line, after the store, so that a caller who goes on to
  \<^verbatim>\<open>get_qty\<close> only in case \<^verbatim>\<open>add_item\<close> returned never reaches it.
\<close>

theorem add_then_get_qty:
  assumes "name \<noteq> []" and "as_int qty = Some q" and "0 \<le> q"
  shows "\<exists>before. fst (get_qty s name) = Returned before
     \<and> fst (get_qty (snd (add_item s (PyStr name) qty)) name) = Returned (before + q)
     \<and> has_key (snd (add_item s (PyStr name) qty)) name
     \<and> (q < int_str_bound \<longrightarrow> fst (add_item s (PyStr name) qty) = Returned ())
     \<and> (int_str_bound \<le> q \<longrightarrow>
          fst (add_item s (PyStr name) qty) = Raised (ValueError Exceeds_int_str_digits))"
  using assms
  by (simp add: add_item_valid get_qty_def dict_get_def map_of_dict_setitem has_key_map_of)

text \<open>
  An instance: adding 20 bananas to a stock that has none returns; adding \<open>10 ^ 4300\<close>
  of them raises.
\<close>

theorem add_then_get_qty_witness:
  "fst (get_qty [(''apple'', 10)] ''banana'') = Returned 0
   \<and> fst (add_item [(''apple'', 10)] (PyStr ''banana'') (PyInt 20)) = Returned ()
   \<and> fst (get_qty (snd (add_item [(''apple'', 10)] (PyStr ''banana'') (PyInt 20))) ''banana'')
       = Returned 20
   \<and> fst (add_item [(''apple'', 10)] (PyStr ''banana'') (PyInt int_str_bound))
       = Raised (ValueError Exceeds_int_str_digits)"
  using add_then_get_qty [of "''banana''" "PyInt 20" 20 "[(''apple'', 10)]"]
    add_then_get_qty [of "''banana''" "PyInt int_str_bound" int_str_bound "[(''apple'', 10)]"]
    int_str_bound_large
  by (simp add: get_qty_def dict_get_def)

subsection \<open>Removing\<close>

text \<open>
  C4. When the item is present with quantity \<open>c\<close> and the quantity \<open>q\<close> to remove is
  an integer that is not negative: if \<open>c - q \<le> 0\<close> the entry is deleted, so the key is
  absent and \<^verbatim>\<open>get_qty\<close> returns 0 afterwards; otherwise the entry holds \<open>c - q\<close>
  afterwards, in its place (the order of the keys is unchanged).
\<close>

theorem remove_present_item:
  assumes "map_of s item = Some c" and "as_int qty = Some q" and "0 \<le> q"
  shows "(c - q \<le> 0 \<longrightarrow>
            remove_item s item qty = (Returned (), filter (\<lambda>e. fst e \<noteq> item) s)
          \<and> \<not> has_key (snd (remove_item s item qty)) item
          \<and> fst (get_qty (snd (remove_item s item qty)) item) = Returned 0)
       \<and> (0 < c - q \<longrightarrow>
            remove_item s item qty = (Returned (), dict_setitem s item (c - q))
          \<and> map_of (snd (remove_item s item qty)) item = Some (c - q)
          \<and> map fst (snd (remove_item s item qty)) = map fst s)"
  using assms
  by (auto simp: remove_item_cases has_key_map_of map_of_drop_key get_qty_def dict_get_def
      map_of_dict_setitem keys_dict_setitem)

text \<open>
  An instance: removing 25 of 20 bananas deletes the entry, removing 3 of 10 apples
  leaves 7.
\<close>

theorem remove_present_item_witness:
  "remove_item [(''apple'', 10), (''banana'', 20)] ''banana'' (PyInt 25)
     = (Returned (), [(''apple'', 10)])
   \<and> fst (get_qty (snd (remove_item [(''apple'', 10), (''banana'', 20)] ''banana'' (PyInt 25)))
        ''banana'') = Returned 0
   \<and> remove_item [(''apple'', 10), (''banana'', 20)] ''apple'' (PyInt 3)
     = (Returned (), [(''apple'', 7), (''banana'', 20)])"
  using remove_present_item [of "[(''apple'', 10), (''banana'', 20)]" "''banana''" 20 "PyInt 25" 25]
    remove_present_item [of "[(''apple'', 10), (''banana'', 20)]" "''apple''" 10 "PyInt 3" 3]
  by (simp add: get_qty_def dict_get_def)

text \<open>
  C5. \<^verbatim>\<open>remove_item\<close> never raises. When the quantity is not an integer or is
  negative, or the item is absent from the stock, the call returns and leaves the
  stock as it was.
\<close>

theorem remove_item_skips:
  "fst (remove_item s item qty) = Returned ()
   \<and> (\<not> isinstance_int qty \<or> (\<exists>q. as_int qty = Some q \<and> q < 0) \<or> \<not> has_key s item
        \<longrightarrow> remove_item s item qty = (Returned (), s))"
  by (auto simp: remove_item_cases isinstance_int_def has_key_map_of split: option.splits)

text \<open>
  An instance: an absent item, a negative quantity and a quantity that is a float.
\<close>

theorem remove_item_skips_witness:
  "remove_item [(''apple'', 7)] ''orange'' (PyInt 1) = (Returned (), [(''apple'', 7)])
   \<and> remove_item [(''apple'', 7)] ''apple'' (PyInt (- 2)) = (Returned (), [(''apple'', 7)])
   \<and> remove_item [(''apple'', 7)] ''apple'' (PyOther ''2.5'') = (Returned (), [(''apple'', 7)])"
  using remove_item_skips [of "[(''apple'', 7)]" "''orange''" "PyInt 1"]
    remove_item_skips [of "[(''apple'', 7)]" "''apple''" "PyInt (- 2)"]
    remove_item_skips [of "[(''apple'', 7)]" "''apple''" "PyOther ''2.5''"]
  by (simp add: has_key_def isinstance_int_def)

subsection \<open>Queries\<close>

text \<open>
  C8. \<^verbatim>\<open>get_qty\<close> always returns and leaves the stock as it was. It returns 0 for an
  absent key and the stored quantity for a present one: the value the dictionary maps
  the key to, which is the quantity of the key's entry.
\<close>

theorem get_qty_lookup:
  "snd (get_qty s item) = s
   \<and> (\<exists>v. fst (get_qty s item) = Returned v)
   \<and> (\<not> has_key s item \<longrightarrow> fst (get_qty s item) = Returned 0)
   \<and> (has_key s item \<longrightarrow> (\<exists>v. map_of s item = Some v \<and> fst (get_qty s item) = Returned v))
   \<and> (is_dict s \<and> (item, v) \<in> set s \<longrightarrow> fst (get_qty s item) = Returned v)"
  by (auto simp: get_qty_def dict_get_def has_key_map_of is_dict_def split: option.splits)

text \<open>
  An instance: a present and an absent item.
\<close>

theorem get_qty_lookup_witness:
  "get_qty [(''apple'', 7), (''pear'', 2)] ''pear'' = (Returned 2, [(''apple'', 7), (''pear'', 2)])
   \<and> get_qty [(''apple'', 7), (''pear'', 2)] ''orange''
       = (Returned 0, [(''apple'', 7), (''pear'', 2)])"
  using get_qty_lookup [of "[(''apple'', 7), (''pear'', 2)]" "''pear''" 2]
    get_qty_lookup [of "[(''apple'', 7), (''pear'', 2)]" "''orange''" 0]
  by (simp add: has_key_def is_dict_def prod_eq_iff)

text \<open>
  C9. \<^verbatim>\<open>check_low_items\<close> always returns, leaves the stock as it was, and with the
  threshold given, or 5 when it is left out, returns the item names of exactly the
  entries whose quantity is strictly below the threshold, in the order of the
  dictionary: for a dictionary, its keys in insertion order with those kept whose stored
  quantity is below the threshold. An empty stock gives an empty list.
\<close>

theorem check_low_items_exact:
  "\<exists>r. check_low_items s threshold_arg = (Returned r, s)
     \<and> subseq r (map fst s)
     \<and> (\<forall>k. k \<in> set r \<longleftrightarrow>
           (\<exists>q. (k, q) \<in> set s \<and> q < (case threshold_arg of None \<Rightarrow> 5 | Some t \<Rightarrow> t)))
     \<and> (is_dict s \<longrightarrow>
           r = filter (\<lambda>k. case map_of s k of None \<Rightarrow> False
                           | Some q \<Rightarrow> q < (case threshold_arg of None \<Rightarrow> 5 | Some t \<Rightarrow> t))
                 (map fst s))
     \<and> (s = [] \<longrightarrow> r = [])"
proof -
  let ?t = "case threshold_arg of None \<Rightarrow> 5 | Some t \<Rightarrow> t"
  let ?r = "map fst (filter (\<lambda>e. snd e < ?t) s)"
  have 1: "check_low_items s threshold_arg = (Returned ?r, s)"
    by (simp add: check_low_items_def low_items_filter)
  have 2: "subseq ?r (map fst s)"
    by (intro subseq_map) simp
  have 3: "\<forall>k. k \<in> set ?r \<longleftrightarrow> (\<exists>q. (k, q) \<in> set s \<and> q < ?t)"
    by force
  have 4: "is_dict s \<longrightarrow>
      ?r = filter (\<lambda>k. case map_of s k of None \<Rightarrow> False | Some q \<Rightarrow> q < ?t) (map fst s)"
    by (simp add: low_items_keys)
  have 5: "s = [] \<longrightarrow> ?r = []"
    by simp
  show ?thesis using 1 2 3 4 5 by blast
qed

text \<open>
  An instance: apple 7 and banana 2 with threshold 5, given and by default; apple 7
  with threshold 15.
\<close>

theorem check_low_items_exact_witness:
  "check_low_items [(''apple'', 7), (''banana'', 2)] (Some 5)
     = (Returned [''banana''], [(''apple'', 7), (''banana'', 2)])
   \<and> check_low_items [(''apple'', 7), (''banana'', 2)] None
     = (Returned [''banana''], [(''apple'', 7), (''banana'', 2)])
   \<and> check_low_items [(''apple'', 7)] (Some 15) = (Returned [''apple''], [(''apple'', 7)])"
  using check_low_items_exact [of "[(''apple'', 7), (''banana'', 2)]" "Some 5"]
    check_low_items_exact [of "[(''apple'', 7), (''banana'', 2)]" None]
    check_low_items_exact [of "[(''apple'', 7)]" "Some 15"]
  by (auto simp: is_dict_def)

subsection \<open>Other keys\<close>

text \<open>
  C10. \<^verbatim>\<open>add_item\<close> and \<^verbatim>\<open>remove_item\<close>, whatever their arguments and outcome, leave
  the presence and the quantity of every key other than the item as they were.
\<close>

theorem other_keys_untouched:
  assumes "PyStr k \<noteq> item" and "k \<noteq> item'"
  shows "map_of (snd (add_item s item qty)) k = map_of s k
     \<and> map_of (snd (remove_item s item' qty)) k = map_of s k
     \<and> has_key (snd (add_item s item qty)) k = has_key s k
     \<and> has_key (snd (remove_item s item' qty)) k = has_key s k"
proof -
  have a: "map_of (snd (add_item s item qty)) k = map_of s k"
    using add_item_snd_cases [of s item qty]
  proof
    assume "snd (add_item s item qty) = s"
    then show ?thesis by simp
  next
    assume "\<exists>name q. item = PyStr name \<and> as_int qty = Some q \<and> 0 \<le> q \<and>
      snd (add_item s item qty) = dict_setitem s name (dict_get s name 0 + q)"
    then obtain name q where h: "item = PyStr name"
      "snd (add_item s item qty) = dict_setitem s name (dict_get s name 0 + q)"
      by blast
    from h(1) assms(1) have "k \<noteq> name" by auto
    then show ?thesis by (simp add: h(2) map_of_dict_setitem)
  qed
  have r: "map_of (snd (remove_item s item' qty)) k = map_of s k"
    using assms(2)
    by (auto simp: remove_item_cases map_of_drop_key map_of_dict_setitem split: option.splits)
  show ?thesis using a r by (simp add: has_key_map_of)
qed

text \<open>
  An instance: the apples when bananas are added and when all bananas are removed.
\<close>

theorem other_keys_untouched_witness:
  "map_of (snd (add_item [(''apple'', 10), (''banana'', 20)] (PyStr ''banana'') (PyInt 5))) ''apple''
     = Some 10
   \<and> map_of (snd (remove_item [(''apple'', 10), (''banana'', 20)] ''banana'' (PyInt 25))) ''apple''
     = Some 10"
  using other_keys_untouched [of "''apple''" "PyStr ''banana''" "''banana''"
      "[(''apple'', 10), (''banana'', 20)]" "PyInt 5"]
    other_keys_untouched [of "''apple''" "PyStr ''banana''" "''banana''"
      "[(''apple'', 10), (''banana'', 20)]" "PyInt 25"]
  by simp

subsection \<open>The demonstration\<close>

text \<open>
  The calls of the module's \<^verbatim>\<open>main\<close> on an empty stock, one after the other: ten apples
  and twenty bananas are added, a negative quantity is rejected, three apples are
  removed, oranges are not in stock, all bananas go, and apple is the one low item
  below 15.
\<close>

lemma demonstration_run:
  "add_item [] (PyStr ''apple'') (PyInt 10) = (Returned (), [(''apple'', 10)])"
  "add_item [(''apple'', 10)] (PyStr ''banana'') (PyInt 20)
     = (Returned (), [(''apple'', 10), (''banana'', 20)])"
  "add_item [(''apple'', 10), (''banana'', 20)] (PyStr ''banana'') (PyInt (- 2))
     = (Raised (ValueError Quantity_cannot_be_negative), [(''apple'', 10), (''banana'', 20)])"
  "remove_item [(''apple'', 10), (''banana'', 20)] ''apple'' (PyInt 3)
     = (Returned (), [(''apple'', 7), (''banana'', 20)])"
  "remove_item [(''apple'', 7), (''banana'', 20)] ''orange'' (PyInt 1)
     = (Returned (), [(''apple'', 7), (''banana'', 20)])"
  "remove_item [(''apple'', 7), (''banana'', 20)] ''banana'' (PyInt 25)
     = (Returned (), [(''apple'', 7)])"
  "get_qty [(''apple'', 7)] ''apple'' = (Returned 7, [(''apple'', 7)])"
  "get_qty [(''apple'', 7)] ''banana'' = (Returned 0, [(''apple'', 7)])"
  "check_low_items [(''apple'', 7)] (Some 15) = (Returned [''apple''], [(''apple'', 7)])"
  by (simp_all add: add_item_def remove_item_cases get_qty_def dict_get_def check_low_items_def)

section \<open>Saving and loading\<close>

text \<open>
  When the path cannot be opened for writing, \<^verbatim>\<open>save_data\<close> returns without a word to
  its caller and the file system is as it was. \<^verbatim>\<open>load_data\<close> returns the empty stock
  for a missing file, for a file that cannot be opened and for a text the library
  rejects.
\<close>

lemma save_data_failure_is_silent:
  "\<not> writable fs (path_of path_arg) \<Longrightarrow> save_data json_dumps m fs path_arg = (Returned (), fs)"
  by (simp add: save_data_def save_data_try_def open_write_def)

lemma load_data_recovers:
  "contents fs (path_of path_arg) = None \<Longrightarrow> load_data json_loads fs path_arg = Returned (Stock [])"
  "contents fs (path_of path_arg) = Some c \<Longrightarrow> \<not> readable fs (path_of path_arg) \<Longrightarrow>
     load_data json_loads fs path_arg = Returned (Stock [])"
  "contents fs (path_of path_arg) = Some (Text t) \<Longrightarrow> json_loads t = None \<Longrightarrow>
     load_data json_loads fs path_arg = Returned (Stock [])"
  by (auto simp: load_data_def load_data_try_def open_read_def json_load_def)



text \<open>
  C7 fails on the code at a file whose bytes are not UTF-8. Reading such a file raises
  \<^verbatim>\<open>UnicodeDecodeError\<close>, which is none of the three classes \<^verbatim>\<open>load_data\<close> handles:
  the call raises instead of returning the empty stock.
\<close>

theorem load_data_undecodable_file:
  assumes "contents fs (path_of path_arg) = Some Garbled" and "readable fs (path_of path_arg)"
  shows "load_data json_loads fs path_arg = Raised UnicodeDecodeError"
  using assms by (simp add: load_data_def load_data_try_def open_read_def json_load_def)

text \<open>
  An instance: such a file at the default path.
\<close>

theorem load_data_undecodable_file_witness:
  "load_data (\<lambda>t. None)
     \<lparr>contents = (\<lambda>p. if p = ''inventory.json'' then Some Garbled else None),
      readable = (\<lambda>p. True), writable = (\<lambda>p. True)\<rparr> None
   = Raised UnicodeDecodeError"
  using load_data_undecodable_file [of
      "\<lparr>contents = (\<lambda>p. if p = ''inventory.json'' then Some Garbled else None),
        readable = (\<lambda>p. True), writable = (\<lambda>p. True)\<rparr>" None "\<lambda>t. None"]
  by (simp add: path_of_def)

end
